theory Spec2Isabelle
  imports Complex_Main "HOL-Library.Product_Lexorder"
begin

section \<open>Python values and exceptions\<close>

text \<open>
  The two decision procedures of the trading bot are embedded here:
  \<^verbatim>\<open>MovingAverageCrossoverStrategy\<close> of \<^verbatim>\<open>core_logic/forex_strategies.py\<close> and
  \<^verbatim>\<open>AdvancedOptionsStrategy\<close> of \<^verbatim>\<open>core_logic/advanced_options_strategy.py\<close>.

  Python numbers (int and float alike) are real numbers, a float being the real number it
  holds; the infinities are outside the model. The one non-number float the forex code
  itself produces and tests for (\<^verbatim>\<open>pd.isna\<close>) is NaN, which is a value of its own below.
  The rounding of float arithmetic is modelled where it decides between contracts, in the
  key by which the selector ranks the survivors; elsewhere a sum, a difference or a quotient
  is the exact one.
  Every exception the code can raise is a value of \<open>error\<close>.
\<close>

datatype error = KeyError | ValueError | TypeError | IndexError | ZeroDivisionError

datatype pyfloat = NaN | Fin real

section \<open>The moving-average crossover strategy\<close>

datatype signal = BUY | SELL | HOLD

text \<open>
  A historical bar is a dict; the code reads its keys \<^verbatim>\<open>'date'\<close> and \<^verbatim>\<open>'close'\<close>. A bar
  without \<^verbatim>\<open>'close'\<close> gives NaN in the data frame's column when another bar has one.
\<close>

record bar =
  date :: "string option"
  close :: "pyfloat option"

text \<open>
  The object's fields. The windows are natural numbers: \<^verbatim>\<open>deque(maxlen=long_window + 5)\<close>
  and \<^verbatim>\<open>rolling(window=...)\<close> refuse negative ones. \<open>short_ma\<close> and \<open>long_ma\<close> are
  \<^verbatim>\<open>None\<close> until an initialization stores a float (possibly NaN) there.
\<close>

record strategy =
  short_window :: nat
  long_window :: nat
  forex_pair :: string
  prices :: "pyfloat list"
  short_ma :: "pyfloat option"
  long_ma :: "pyfloat option"
  historical_bars_df :: "bar list option"
  data_initialized :: bool
  position :: int

definition strategy_init :: "nat \<Rightarrow> nat \<Rightarrow> string \<Rightarrow> strategy" where
  \<comment> \<open>\<^verbatim>\<open>__init__\<close>\<close>
  "strategy_init sw lw pair =
     \<lparr>short_window = sw, long_window = lw, forex_pair = pair, prices = [],
      short_ma = None, long_ma = None, historical_bars_df = None,
      data_initialized = False, position = 0\<rparr>"

definition deque_append :: "nat \<Rightarrow> 'a list \<Rightarrow> 'a \<Rightarrow> 'a list" where
  \<comment> \<open>\<^verbatim>\<open>deque.append\<close> on a deque with \<^verbatim>\<open>maxlen\<close>: the oldest element leaves once full\<close>
  "deque_append maxlen xs x = (let ys = xs @ [x] in drop (length ys - maxlen) ys)"

definition py_tail :: "nat \<Rightarrow> 'a list \<Rightarrow> 'a list" where
  \<comment> \<open>the slice \<^verbatim>\<open>xs[-n:]\<close>; \<^verbatim>\<open>xs[-0:]\<close> is the whole list\<close>
  "py_tail n xs = (if n = 0 then xs else drop (length xs - n) xs)"

definition fl_sum :: "pyfloat list \<Rightarrow> pyfloat" where
  \<comment> \<open>\<^verbatim>\<open>sum\<close> of floats: NaN as soon as one summand is, and otherwise the exact sum (the
      rounding of the additions is not modelled; what is proved of a tick is proved for
      the means the tick yields, whatever they are)\<close>
  "fl_sum xs = (if NaN \<in> set xs then NaN
                else Fin (sum_list (map (\<lambda>x. case x of Fin r \<Rightarrow> r | NaN \<Rightarrow> 0) xs)))"

definition fl_div :: "pyfloat \<Rightarrow> nat \<Rightarrow> error + pyfloat" where
  \<comment> \<open>a float divided by an int\<close>
  "fl_div x n = (if n = 0 then Inl ZeroDivisionError
                 else Inr (case x of NaN \<Rightarrow> NaN | Fin r \<Rightarrow> Fin (r / real n)))"

definition fl_le :: "pyfloat \<Rightarrow> pyfloat \<Rightarrow> bool" where
  \<comment> \<open>\<^verbatim>\<open><=\<close>; every comparison with NaN is false\<close>
  "fl_le a b = (case (a, b) of (Fin x, Fin y) \<Rightarrow> x \<le> y | _ \<Rightarrow> False)"

definition fl_less :: "pyfloat \<Rightarrow> pyfloat \<Rightarrow> bool" where
  "fl_less a b = (case (a, b) of (Fin x, Fin y) \<Rightarrow> x < y | _ \<Rightarrow> False)"

definition rolling_mean_last :: "nat \<Rightarrow> pyfloat list \<Rightarrow> pyfloat" where
  \<comment> \<open>\<^verbatim>\<open>col.rolling(window=w).mean().iloc[-1]\<close>: \<^verbatim>\<open>min_periods\<close> defaults to the window,
      so the mean is NaN unless the last \<open>w\<close> rows exist and none is NaN\<close>
  "rolling_mean_last w col =
     (if w = 0 \<or> length col < w then NaN
      else case fl_sum (drop (length col - w) col) of
             NaN \<Rightarrow> NaN | Fin r \<Rightarrow> Fin (r / real w))"

definition close_column :: "bar list \<Rightarrow> pyfloat list" where
  \<comment> \<open>the \<^verbatim>\<open>'close'\<close> column of \<^verbatim>\<open>pd.DataFrame(bars)\<close>\<close>
  "close_column bars = map (\<lambda>b. case close b of None \<Rightarrow> NaN | Some x \<Rightarrow> x) bars"

text \<open>
  \<^verbatim>\<open>initialize_with_historical_data\<close>. The result is the returned flag and the object
  afterwards. \<open>sort_by_date\<close> stands for pandas' \<^verbatim>\<open>to_datetime\<close> followed by
  \<^verbatim>\<open>sort_values(by='date')\<close>; it is \<open>None\<close> where they raise, which the code catches
  and then goes on with the rows as they were.
\<close>

definition initialize_with_historical_data ::
  "(bar list \<Rightarrow> bar list option) \<Rightarrow> strategy \<Rightarrow> bar list \<Rightarrow> bool \<times> strategy" where
  "initialize_with_historical_data sort_by_date s bars =
     (if bars = [] \<or> length bars < long_window s then (False, s)
      else
        let s1 = s\<lparr>historical_bars_df := Some bars\<rparr> in
        if list_all (\<lambda>b. close b = None) bars then (False, s1)
        else
          let rows = (if list_ex (\<lambda>b. date b \<noteq> None) bars
                      then (case sort_by_date bars of None \<Rightarrow> bars | Some bs \<Rightarrow> bs)
                      else bars);
              col = close_column rows;
              s2 = s1\<lparr>historical_bars_df := Some rows\<rparr>;
              s3 = s2\<lparr>prices := foldl (deque_append (long_window s + 5)) (prices s2)
                                     (drop (length col - long_window s) col)\<rparr>;
              s4 = s3\<lparr>short_ma := Some (rolling_mean_last (short_window s) col),
                      long_ma := Some (rolling_mean_last (long_window s) col)\<rparr>
          in if short_ma s4 = Some NaN \<or> long_ma s4 = Some NaN
             then (False, s4\<lparr>data_initialized := False\<rparr>)
             else (True, s4\<lparr>data_initialized := True\<rparr>))"

text \<open>
  \<^verbatim>\<open>on_new_tick\<close>. The result is what the call returns or raises, and the object
  afterwards (an exception leaves the mutations made before it).
\<close>

definition crossover ::
  "pyfloat \<Rightarrow> pyfloat \<Rightarrow> pyfloat \<Rightarrow> pyfloat \<Rightarrow> strategy \<Rightarrow> (error + signal) \<times> strategy" where
  \<comment> \<open>the \<^verbatim>\<open>if ... elif ...\<close> that ends \<^verbatim>\<open>on_new_tick\<close>; \<open>new_short\<close> and \<open>new_long\<close> are
      \<^verbatim>\<open>self.short_ma\<close> and \<^verbatim>\<open>self.long_ma\<close> as just stored\<close>
  "crossover previous_short_ma previous_long_ma new_short new_long s =
     (if fl_le previous_short_ma previous_long_ma \<and> fl_less new_long new_short then
        (if position s \<le> 0 then (Inr BUY, s\<lparr>position := 1\<rparr>) else (Inr HOLD, s))
      else if fl_le previous_long_ma previous_short_ma \<and> fl_less new_short new_long then
        (if position s \<ge> 0 then (Inr SELL, s\<lparr>position := - 1\<rparr>) else (Inr HOLD, s))
      else (Inr HOLD, s))"

definition on_new_tick :: "strategy \<Rightarrow> real \<Rightarrow> (error + signal) \<times> strategy" where
  "on_new_tick s current_price =
     (if \<not> data_initialized s then (Inr HOLD, s)
      else if current_price \<le> 0 then (Inr HOLD, s)
      else
        let previous_short_ma = short_ma s;
            previous_long_ma = long_ma s;
            s1 = s\<lparr>prices := deque_append (long_window s + 5) (prices s) (Fin current_price)\<rparr>
        in
        if \<not> length (prices s1) \<ge> short_window s then (Inr HOLD, s1)
        else
          (case fl_div (fl_sum (py_tail (short_window s) (prices s1))) (short_window s) of
             Inl e \<Rightarrow> (Inl e, s1)
           | Inr m \<Rightarrow>
               let s2 = s1\<lparr>short_ma := Some m\<rparr> in
               if \<not> length (prices s2) \<ge> long_window s then (Inr HOLD, s2)
               else
                 (case fl_div (fl_sum (py_tail (long_window s) (prices s2))) (long_window s) of
                    Inl e \<Rightarrow> (Inl e, s2)
                  | Inr m' \<Rightarrow>
                      let s3 = s2\<lparr>long_ma := Some m'\<rparr> in
                      (case previous_short_ma of
                         None \<Rightarrow> (Inr HOLD, s3)
                       | Some ps \<Rightarrow>
                           (case previous_long_ma of
                              None \<Rightarrow> (Inr HOLD, s3)
                            | Some pl \<Rightarrow> crossover ps pl m m' s3)))))"

definition get_current_position :: "strategy \<Rightarrow> int" where
  "get_current_position s = position s"

definition update_position :: "strategy \<Rightarrow> int \<Rightarrow> strategy" where
  "update_position s new_position = s\<lparr>position := new_position\<rparr>"

section \<open>The options contract selector\<close>

text \<open>
  A contract of the options chain is a dict whose values come from a data provider:
  numbers, strings or \<^verbatim>\<open>None\<close>.
\<close>

datatype pyval = PyNone | PyNum real | PyStr string

type_synonym contract = "string \<rightharpoonup> pyval"

text \<open>
  What the selector takes from outside the repository: the builtin \<^verbatim>\<open>float\<close> on a
  string (\<open>None\<close> where it raises ValueError), \<^verbatim>\<open>datetime.strptime(s, '%Y-%m-%d')\<close> (the
  date's proleptic Gregorian ordinal, \<open>None\<close> where it raises ValueError) and the reading
  of \<^verbatim>\<open>datetime.now()\<close>, in microseconds since the midnight that starts ordinal 0. The
  code reads the clock anew for each contract that reaches the DTE stage; the model takes
  these readings of one pass to be one instant. \<open>fl_round\<close> is the rounding of binary
  floating point: the double nearest to a real number, which is what \<^verbatim>\<open>+\<close>, \<^verbatim>\<open>-\<close> and
  \<^verbatim>\<open>/\<close> on floats return for their exact result.
\<close>

record pyenv =
  float_str :: "string \<Rightarrow> real option"
  strptime_ymd :: "string \<Rightarrow> int option"
  now_us :: int
  fl_round :: "real \<Rightarrow> real"

record config =
  ticker :: string
  target_dte_min :: real
  target_dte_max :: real
  target_delta_min :: real
  target_delta_max :: real
  iv_filter_mode :: string
  target_iv_min :: real
  target_iv_max :: real
  target_iv_percentile_min :: real
  target_iv_percentile_max :: real
  iv_to_hv_ratio_min :: real
  iv_to_hv_ratio_max :: real
  min_open_interest :: real
  min_volume :: real
  max_bid_ask_spread_pct :: real
  risk_per_trade_pct :: real

definition default_config :: config where
  "default_config =
     \<lparr>ticker = ''SPY'', target_dte_min = 30, target_dte_max = 60,
      target_delta_min = 0.30, target_delta_max = 0.50,
      iv_filter_mode = ''fixed_range'',
      target_iv_min = 0.15, target_iv_max = 0.60,
      target_iv_percentile_min = 20, target_iv_percentile_max = 80,
      iv_to_hv_ratio_min = 1.0, iv_to_hv_ratio_max = 2.5,
      min_open_interest = 100, min_volume = 50,
      max_bid_ask_spread_pct = 0.1, risk_per_trade_pct = 0.01\<rparr>"

definition validate_config :: "config \<Rightarrow> error + unit" where
  "validate_config cfg =
     (if iv_filter_mode cfg \<in> set [''fixed_range'', ''percentile'', ''vs_underlying_hv'', ''none'']
      then Inr () else Inl ValueError)"

definition strategy_name :: string where
  "strategy_name = ''AdvancedOptionsStrategy''"

definition dict_get :: "contract \<Rightarrow> string \<Rightarrow> pyval \<Rightarrow> pyval" where
  \<comment> \<open>\<^verbatim>\<open>d.get(k, default)\<close>; \<^verbatim>\<open>d.get(k)\<close> is \<open>dict_get d k PyNone\<close>\<close>
  "dict_get d k dflt = (case d k of None \<Rightarrow> dflt | Some v \<Rightarrow> v)"

definition dict_item :: "contract \<Rightarrow> string \<Rightarrow> error + pyval" where
  \<comment> \<open>\<^verbatim>\<open>d[k]\<close>\<close>
  "dict_item d k = (case d k of None \<Rightarrow> Inl KeyError | Some v \<Rightarrow> Inr v)"

fun py_float :: "pyenv \<Rightarrow> pyval \<Rightarrow> error + real" where
  \<comment> \<open>the builtin \<^verbatim>\<open>float(v)\<close>\<close>
  "py_float env PyNone = Inl TypeError"
| "py_float env (PyNum r) = Inr r"
| "py_float env (PyStr s) = (case float_str env s of None \<Rightarrow> Inl ValueError | Some r \<Rightarrow> Inr r)"

fun py_num :: "pyval \<Rightarrow> error + real" where
  \<comment> \<open>a value as an operand of \<^verbatim>\<open><\<close>, \<^verbatim>\<open><=\<close> or \<^verbatim>\<open>-\<close> against a number: anything but a number
      raises TypeError\<close>
  "py_num (PyNum r) = Inr r"
| "py_num v = Inl TypeError"

fun format_2f :: "pyval \<Rightarrow> error + unit" where
  \<comment> \<open>the format spec \<^verbatim>\<open>:.2f\<close> of an f-string field: ValueError (unknown format code) on a
      str, TypeError on \<^verbatim>\<open>None\<close>\<close>
  "format_2f (PyNum r) = Inr ()"
| "format_2f (PyStr s) = Inl ValueError"
| "format_2f PyNone = Inl TypeError"

definition calculate_dte :: "pyenv \<Rightarrow> pyval \<Rightarrow> error + int" where
  \<comment> \<open>\<^verbatim>\<open>_calculate_dte\<close>: \<^verbatim>\<open>.days\<close> of a timedelta is the floor of the duration in days\<close>
  "calculate_dte env expiration_date_str =
     (case expiration_date_str of
        PyStr s \<Rightarrow>
          (case strptime_ymd env s of
             None \<Rightarrow> Inl ValueError
           | Some ordinal \<Rightarrow> Inr ((ordinal * 86400000000 - now_us env) div 86400000000))
      | _ \<Rightarrow> Inl TypeError)"

definition passes_iv_filter :: "config \<Rightarrow> pyenv \<Rightarrow> contract \<Rightarrow> real option \<Rightarrow> bool" where
  \<comment> \<open>\<^verbatim>\<open>_passes_iv_filter\<close>\<close>
  "passes_iv_filter cfg env contract underlying_hv =
     (let mode = iv_filter_mode cfg; iv = dict_get contract ''implied_volatility'' PyNone in
      if iv = PyNone then True
      else
        (case py_float env iv of
           Inl e \<Rightarrow> False
         | Inr iv \<Rightarrow>
             if mode = ''none'' then True
             else if mode = ''fixed_range'' then target_iv_min cfg \<le> iv \<and> iv \<le> target_iv_max cfg
             else if mode = ''percentile'' then
               (let percentile = dict_get contract ''iv_percentile'' PyNone in
                if percentile = PyNone then False
                else
                  (case py_float env percentile of
                     Inl e \<Rightarrow> False
                   | Inr percentile \<Rightarrow>
                       target_iv_percentile_min cfg \<le> percentile
                       \<and> percentile \<le> target_iv_percentile_max cfg))
             else if mode = ''vs_underlying_hv'' then
               (case underlying_hv of
                  None \<Rightarrow> False
                | Some hv \<Rightarrow>
                    if hv \<le> 0 then False
                    else iv_to_hv_ratio_min cfg \<le> iv / hv \<and> iv / hv \<le> iv_to_hv_ratio_max cfg)
             else True))"

definition delta_filter :: "config \<Rightarrow> pyenv \<Rightarrow> contract \<Rightarrow> bool" where
  \<comment> \<open>lines 195 to 201 of \<^verbatim>\<open>define_orders\<close>: \<open>False\<close> is \<^verbatim>\<open>continue\<close>\<close>
  "delta_filter cfg env contract =
     (case py_float env (dict_get contract ''delta'' (PyNum 0)) of
        Inl e \<Rightarrow> False
      | Inr delta_val \<Rightarrow>
          target_delta_min cfg \<le> \<bar>delta_val\<bar> \<and> \<bar>delta_val\<bar> \<le> target_delta_max cfg)"

text \<open>
  The body of the loop over the chain, for one contract: \<open>Inr None\<close> is \<^verbatim>\<open>continue\<close>,
  \<open>Inr (Some c)\<close> appends \<open>c\<close> (the contract with its \<^verbatim>\<open>'dte'\<close> stored) to
  \<^verbatim>\<open>eligible_contracts\<close>, \<open>Inl e\<close> is an exception that leaves \<^verbatim>\<open>define_orders\<close>.
\<close>

definition liquidity_and_spread :: "config \<Rightarrow> contract \<Rightarrow> error + bool" where
  \<comment> \<open>lines 208 to 218: \<open>Inr False\<close> is \<^verbatim>\<open>continue\<close>\<close>
  "liquidity_and_spread cfg contract =
     (case py_num (dict_get contract ''open_interest'' (PyNum 0)) of
        Inl e \<Rightarrow> Inl e
      | Inr oi \<Rightarrow>
          if oi < min_open_interest cfg then Inr False
          else
            (case py_num (dict_get contract ''volume'' (PyNum 0)) of
               Inl e \<Rightarrow> Inl e
             | Inr vol \<Rightarrow>
                 if vol < min_volume cfg then Inr False
                 else
                   (case py_num (dict_get contract ''ask'' (PyNum 0)) of
                      Inl e \<Rightarrow> Inl e
                    | Inr ask \<Rightarrow>
                        if ask \<le> 0 then Inr False
                        else
                          (case py_num (dict_get contract ''bid'' (PyNum 0)) of
                             Inl e \<Rightarrow> Inl e
                           | Inr bid \<Rightarrow>
                               if bid \<le> 0 then Inr False
                               else if (ask - bid) / ask > max_bid_ask_spread_pct cfg
                               then Inr False
                               else Inr True))))"

definition check_contract ::
  "config \<Rightarrow> pyenv \<Rightarrow> real option \<Rightarrow> string \<Rightarrow> contract \<Rightarrow> error + contract option" where
  "check_contract cfg env underlying_hv desired_option_type contract =
     (case dict_item contract ''type'' of
        Inl e \<Rightarrow> Inl e
      | Inr t \<Rightarrow>
          if t \<noteq> PyStr desired_option_type then Inr None
          else
            (case dict_item contract ''expiration_date'' of
               Inl e \<Rightarrow> Inl e
             | Inr d \<Rightarrow>
                 (case calculate_dte env d of
                    Inl e \<Rightarrow> Inl e
                  | Inr dte \<Rightarrow>
                      if \<not> (target_dte_min cfg \<le> real_of_int dte
                             \<and> real_of_int dte \<le> target_dte_max cfg) then Inr None
                      else if \<not> delta_filter cfg env contract then Inr None
                      else if \<not> passes_iv_filter cfg env contract underlying_hv then Inr None
                      else
                        (case liquidity_and_spread cfg contract of
                           Inl e \<Rightarrow> Inl e
                         | Inr ok \<Rightarrow>
                             if \<not> ok then Inr None
                             else Inr (Some (contract(''dte'' \<mapsto> PyNum (real_of_int dte))))))))"

fun eligible_contracts ::
  "config \<Rightarrow> pyenv \<Rightarrow> real option \<Rightarrow> string \<Rightarrow> contract list \<Rightarrow> error + contract list" where
  \<comment> \<open>the \<^verbatim>\<open>for contract in options_chain\<close> loop\<close>
  "eligible_contracts cfg env hv desired [] = Inr []"
| "eligible_contracts cfg env hv desired (c # cs) =
     (case check_contract cfg env hv desired c of
        Inl e \<Rightarrow> Inl e
      | Inr r \<Rightarrow>
          (case eligible_contracts cfg env hv desired cs of
             Inl e \<Rightarrow> Inl e
           | Inr es \<Rightarrow> Inr (case r of None \<Rightarrow> es | Some c' \<Rightarrow> c' # es)))"

text \<open>
  The ranking of the survivors: \<^verbatim>\<open>list.sort(key=...)\<close> computes the key of every element
  first, then sorts by the keys alone, stably; tuples compare lexicographically. The first
  component is computed in floating point: the sum of the two bounds, its half and the
  difference are each rounded; \<^verbatim>\<open>abs\<close> and the unary minus are exact.
\<close>

definition delta_distance :: "config \<Rightarrow> pyenv \<Rightarrow> contract \<Rightarrow> error + real" where
  \<comment> \<open>the first component of the sort key\<close>
  "delta_distance cfg env x =
     (case py_float env (dict_get x ''delta'' (PyNum 0)) of
        Inl e \<Rightarrow> Inl e
      | Inr d \<Rightarrow>
          Inr \<bar>fl_round env
                 (\<bar>d\<bar> - fl_round env
                          (fl_round env (target_delta_min cfg + target_delta_max cfg) / 2))\<bar>)"

definition open_interest_of :: "contract \<Rightarrow> error + real" where
  \<comment> \<open>\<^verbatim>\<open>x.get('open_interest', 0)\<close> as the operand of the unary minus\<close>
  "open_interest_of x = py_num (dict_get x ''open_interest'' (PyNum 0))"

definition sort_key_of :: "config \<Rightarrow> pyenv \<Rightarrow> contract \<Rightarrow> error + real \<times> real" where
  "sort_key_of cfg env x =
     (case delta_distance cfg env x of
        Inl e \<Rightarrow> Inl e
      | Inr dd \<Rightarrow>
          (case open_interest_of x of
             Inl e \<Rightarrow> Inl e
           | Inr oi \<Rightarrow> Inr (dd, - oi)))"

fun sort_keys :: "config \<Rightarrow> pyenv \<Rightarrow> contract list \<Rightarrow> error + (real \<times> real) list" where
  "sort_keys cfg env [] = Inr []"
| "sort_keys cfg env (x # xs) =
     (case sort_key_of cfg env x of
        Inl e \<Rightarrow> Inl e
      | Inr k \<Rightarrow>
          (case sort_keys cfg env xs of
             Inl e \<Rightarrow> Inl e
           | Inr ks \<Rightarrow> Inr (k # ks)))"

definition select_contract :: "config \<Rightarrow> pyenv \<Rightarrow> contract list \<Rightarrow> error + contract" where
  \<comment> \<open>lines 227 to 232: sort, then \<^verbatim>\<open>eligible_contracts[0]\<close>\<close>
  "select_contract cfg env eligible =
     (case sort_keys cfg env eligible of
        Inl e \<Rightarrow> Inl e
      | Inr ks \<Rightarrow>
          (case map snd (sort_key fst (zip ks eligible)) of
             [] \<Rightarrow> Inl IndexError
           | selected # rest \<Rightarrow> Inr selected))"

record order =
  symbol :: pyval
  order_type :: string
  side :: string
  quantity :: int
  price_at_decision :: real
  estimated_cost :: real
  tag :: string

definition size_order :: "config \<Rightarrow> real \<Rightarrow> string \<Rightarrow> contract \<Rightarrow> error + order list" where
  \<comment> \<open>lines 234 to 261: the sizing, the order and the log line, whose two \<^verbatim>\<open>:.2f\<close> fields
      are formatted before the order list is returned\<close>
  "size_order cfg account_balance desired_option_type selected_contract =
     (case dict_item selected_contract ''ask'' of
        Inl e \<Rightarrow> Inl e
      | Inr a \<Rightarrow>
          (case py_num a of
             Inl e \<Rightarrow> Inl e
           | Inr option_price_to_use \<Rightarrow>
               if option_price_to_use \<le> 0 then
                 (case dict_item selected_contract ''symbol'' of
                    Inl e \<Rightarrow> Inl e
                  | Inr sy \<Rightarrow> Inr [])
               else
                 let max_loss_per_contract = option_price_to_use * 100;
                     trade_risk_amount = account_balance * risk_per_trade_pct cfg;
                     qty = \<lfloor>trade_risk_amount / max_loss_per_contract\<rfloor>
                 in
                 if qty = 0 then Inr []
                 else
                   (case dict_item selected_contract ''symbol'' of
                      Inl e \<Rightarrow> Inl e
                    | Inr sy \<Rightarrow>
                        let order =
                          \<lparr>symbol = sy, order_type = ''market'', side = ''buy_to_open'',
                           quantity = qty, price_at_decision = option_price_to_use,
                           estimated_cost = option_price_to_use * real_of_int qty * 100,
                           tag = strategy_name @ ''_'' @ desired_option_type\<rparr>
                        in
                        (case format_2f (dict_get selected_contract ''implied_volatility''
                                           (PyStr ''N/A'')) of
                           Inl e \<Rightarrow> Inl e
                         | Inr u \<Rightarrow>
                             (case format_2f (dict_get selected_contract ''delta''
                                                (PyStr ''N/A'')) of
                                Inl e \<Rightarrow> Inl e
                              | Inr u' \<Rightarrow> Inr [order])))))"

text \<open>
  \<^verbatim>\<open>define_orders\<close>. \<open>signals\<close> is the \<^verbatim>\<open>'positions'\<close> column of the signals frame;
  \<open>options_chain\<close>, \<open>underlying_price\<close> and \<open>underlying_hv\<close> are the keyword arguments,
  \<open>None\<close> when absent.
\<close>

definition define_orders ::
  "config \<Rightarrow> pyenv \<Rightarrow> real list \<Rightarrow> real \<Rightarrow> contract list option \<Rightarrow> real option \<Rightarrow> real option
     \<Rightarrow> error + order list" where
  "define_orders cfg env signals account_balance options_chain underlying_price underlying_hv =
     (if signals = [] then Inl IndexError
      else
        let trade_signal = last signals in
        if (case options_chain of None \<Rightarrow> True | Some chain \<Rightarrow> chain = [])
           \<or> underlying_price = None then Inr []
        else if trade_signal = 0 then Inr []
        else
          let desired_option_type = (if trade_signal > 0 then ''call'' else ''put'') in
          (case eligible_contracts cfg env underlying_hv desired_option_type (the options_chain) of
             Inl e \<Rightarrow> Inl e
           | Inr eligible \<Rightarrow>
               if eligible = [] then Inr []
               else
                 (case select_contract cfg env eligible of
                    Inl e \<Rightarrow> Inl e
                  | Inr selected_contract \<Rightarrow>
                      size_order cfg account_balance desired_option_type selected_contract)))"

section \<open>The properties' vocabulary\<close>

subsection \<open>Runs of the crossover strategy\<close>

text \<open>
  Successive calls of \<^verbatim>\<open>on_new_tick\<close>, each on the object as the call before left it,
  as the polling loop makes them.
\<close>

fun feed_ticks :: "strategy \<Rightarrow> real list \<Rightarrow> (error + signal) list \<times> strategy" where
  "feed_ticks s [] = ([], s)"
| "feed_ticks s (p # ps) =
     (case on_new_tick s p of
        (r, s') \<Rightarrow> (case feed_ticks s' ps of (rs, s'') \<Rightarrow> (r # rs, s'')))"

text \<open>
  The objects a caller can reach through the class's methods: the constructor, then
  \<^verbatim>\<open>initialize_with_historical_data\<close>, \<^verbatim>\<open>on_new_tick\<close> and \<^verbatim>\<open>update_position\<close> in any
  order. \<open>A\<close> is the set of values the caller hands to \<^verbatim>\<open>update_position\<close>.
\<close>

inductive reachable :: "int set \<Rightarrow> strategy \<Rightarrow> bool" for A :: "int set" where
  constructed: "reachable A (strategy_init sw lw pair)"
| initialized: "reachable A s \<Longrightarrow> reachable A (snd (initialize_with_historical_data sbd s bars))"
| ticked: "reachable A s \<Longrightarrow> reachable A (snd (on_new_tick s p))"
| position_set: "reachable A s \<Longrightarrow> v \<in> A \<Longrightarrow> reachable A (update_position s v)"

definition flat_bar :: "real \<Rightarrow> bar" where
  \<comment> \<open>the bar \<^verbatim>\<open>{'close': x}\<close>\<close>
  "flat_bar x = \<lparr>date = None, close = Some (Fin x)\<rparr>"

definition no_sort :: "bar list \<Rightarrow> bar list option" where
  \<comment> \<open>a date sort that always raises; bars without \<^verbatim>\<open>'date'\<close> never reach it\<close>
  "no_sort bars = None"

definition fresh_strategy :: strategy where
  \<comment> \<open>\<^verbatim>\<open>MovingAverageCrossoverStrategy(1, 2, "EUR.USD")\<close> initialized with two bars closing at 1.0\<close>
  "fresh_strategy =
     snd (initialize_with_historical_data no_sort (strategy_init 1 2 ''EUR.USD'')
            [flat_bar 1, flat_bar 1])"

subsection \<open>The six filter stages, as the specification words them\<close>

definition type_stage :: "string \<Rightarrow> contract \<Rightarrow> bool" where
  "type_stage desired c = (c ''type'' = Some (PyStr desired))"

definition dte_of :: "pyenv \<Rightarrow> contract \<Rightarrow> int option" where
  \<comment> \<open>days to expiration, where the contract has a date that parses\<close>
  "dte_of env c =
     (case c ''expiration_date'' of
        None \<Rightarrow> None
      | Some v \<Rightarrow> (case calculate_dte env v of Inl e \<Rightarrow> None | Inr d \<Rightarrow> Some d))"

definition dte_stage :: "config \<Rightarrow> pyenv \<Rightarrow> contract \<Rightarrow> bool" where
  "dte_stage cfg env c =
     (case dte_of env c of
        None \<Rightarrow> False
      | Some d \<Rightarrow> target_dte_min cfg \<le> real_of_int d \<and> real_of_int d \<le> target_dte_max cfg)"

definition delta_stage :: "config \<Rightarrow> pyenv \<Rightarrow> contract \<Rightarrow> bool" where
  \<comment> \<open>the absolute value of the delta lies within the band; a contract without the key has
      the delta 0.0, one whose delta is no number has none\<close>
  "delta_stage cfg env c =
     (case c ''delta'' of
        None \<Rightarrow> target_delta_min cfg \<le> 0 \<and> 0 \<le> target_delta_max cfg
      | Some v \<Rightarrow>
          (case py_float env v of
             Inl e \<Rightarrow> False
           | Inr d \<Rightarrow> target_delta_min cfg \<le> \<bar>d\<bar> \<and> \<bar>d\<bar> \<le> target_delta_max cfg))"

definition liquidity_stage :: "config \<Rightarrow> contract \<Rightarrow> bool" where
  "liquidity_stage cfg c =
     (case py_num (dict_get c ''open_interest'' (PyNum 0)) of
        Inl e \<Rightarrow> False
      | Inr oi \<Rightarrow>
          (case py_num (dict_get c ''volume'' (PyNum 0)) of
             Inl e \<Rightarrow> False
           | Inr vol \<Rightarrow> min_open_interest cfg \<le> oi \<and> min_volume cfg \<le> vol))"

definition spread_stage :: "config \<Rightarrow> contract \<Rightarrow> bool" where
  "spread_stage cfg c =
     (case py_num (dict_get c ''ask'' (PyNum 0)) of
        Inl e \<Rightarrow> False
      | Inr ask \<Rightarrow>
          (case py_num (dict_get c ''bid'' (PyNum 0)) of
             Inl e \<Rightarrow> False
           | Inr bid \<Rightarrow>
               0 < ask \<and> 0 < bid \<and> (ask - bid) / ask \<le> max_bid_ask_spread_pct cfg))"

definition survives :: "config \<Rightarrow> pyenv \<Rightarrow> real option \<Rightarrow> string \<Rightarrow> contract \<Rightarrow> bool" where
  \<comment> \<open>the conjunction of the six stages\<close>
  "survives cfg env hv desired c =
     (type_stage desired c \<and> dte_stage cfg env c \<and> delta_stage cfg env c
      \<and> passes_iv_filter cfg env c hv \<and> liquidity_stage cfg c \<and> spread_stage cfg c)"

definition with_dte :: "pyenv \<Rightarrow> contract \<Rightarrow> contract" where
  \<comment> \<open>\<^verbatim>\<open>contract['dte'] = dte\<close>\<close>
  "with_dte env c =
     (case dte_of env c of None \<Rightarrow> c | Some d \<Rightarrow> c(''dte'' \<mapsto> PyNum (real_of_int d)))"



subsection \<open>The stages evaluated in another order\<close>








subsection \<open>The ranking, as the specification words it\<close>

definition midpoint_distance :: "config \<Rightarrow> pyenv \<Rightarrow> real \<Rightarrow> real" where
  \<comment> \<open>the distance of the absolute delta \<open>d\<close> from the midpoint of the delta band, each
      floating-point operation rounding its result\<close>
  "midpoint_distance cfg env d =
     \<bar>fl_round env
        (\<bar>d\<bar> - fl_round env (fl_round env (target_delta_min cfg + target_delta_max cfg) / 2))\<bar>"

subsection \<open>Records on which a coercion fails\<close>

definition coercion_failure :: "config \<Rightarrow> pyenv \<Rightarrow> contract \<Rightarrow> bool" where
  \<comment> \<open>\<^verbatim>\<open>float\<close> raises on the contract's delta, on its implied volatility, or (in
      percentile mode, the implied volatility being a number) on its IV percentile\<close>
  "coercion_failure cfg env c =
     (let iv = dict_get c ''implied_volatility'' PyNone;
          pct = dict_get c ''iv_percentile'' PyNone
      in isl (py_float env (dict_get c ''delta'' (PyNum 0)))
         \<or> (iv \<noteq> PyNone \<and> isl (py_float env iv))
         \<or> (iv_filter_mode cfg = ''percentile'' \<and> iv \<noteq> PyNone \<and> \<not> isl (py_float env iv)
            \<and> pct \<noteq> PyNone \<and> isl (py_float env pct)))"

subsection \<open>Concrete inputs\<close>

text \<open>
  An environment for the evaluations below: it is noon of 2026-11-04 (ordinal 739924),
  \<^verbatim>\<open>strptime\<close> reads \<^verbatim>\<open>'2026-12-15'\<close> as ordinal 739965, \<^verbatim>\<open>float('0.40')\<close> is 0.4, and no
  other string that occurs below is a date or a float literal. Its rounding is the
  identity, which is what the rounding is on the ranking keys of \<open>call_b\<close>, \<open>call_c\<close>
  and \<open>call_d\<close> under \<open>tie_config\<close>: 0.25, 0.5, 0.75 and their sums, halves and
  differences are doubles.
\<close>

definition example_env :: pyenv where
  "example_env =
     \<lparr>float_str = [''0.40'' \<mapsto> 0.4],
      strptime_ymd = [''2026-12-15'' \<mapsto> 739965],
      now_us = 739924 * 86400000000 + 43200000000,
      fl_round = (\<lambda>x. x)\<rparr>"

definition call_a :: contract where
  "call_a =
     [''symbol'' \<mapsto> PyStr ''XYZ_C_A'', ''type'' \<mapsto> PyStr ''call'',
      ''expiration_date'' \<mapsto> PyStr ''2026-12-15'', ''delta'' \<mapsto> PyNum 0.40,
      ''implied_volatility'' \<mapsto> PyNum 0.25, ''bid'' \<mapsto> PyNum 0.48, ''ask'' \<mapsto> PyNum 0.50,
      ''volume'' \<mapsto> PyNum 150, ''open_interest'' \<mapsto> PyNum 250]"

definition call_b :: contract where
  \<comment> \<open>as far from the delta midpoint 0.50 of \<open>tie_config\<close> as \<open>call_c\<close>, with less open interest\<close>
  "call_b =
     [''symbol'' \<mapsto> PyStr ''XYZ_C_B'', ''type'' \<mapsto> PyStr ''call'',
      ''expiration_date'' \<mapsto> PyStr ''2026-12-15'', ''delta'' \<mapsto> PyNum 0.25,
      ''implied_volatility'' \<mapsto> PyNum 0.25, ''bid'' \<mapsto> PyNum 0.48, ''ask'' \<mapsto> PyNum 0.50,
      ''volume'' \<mapsto> PyNum 150, ''open_interest'' \<mapsto> PyNum 250]"

definition call_c :: contract where
  "call_c =
     [''symbol'' \<mapsto> PyStr ''XYZ_C_C'', ''type'' \<mapsto> PyStr ''call'',
      ''expiration_date'' \<mapsto> PyStr ''2026-12-15'', ''delta'' \<mapsto> PyNum 0.75,
      ''implied_volatility'' \<mapsto> PyNum 0.25, ''bid'' \<mapsto> PyNum 0.48, ''ask'' \<mapsto> PyNum 0.50,
      ''volume'' \<mapsto> PyNum 150, ''open_interest'' \<mapsto> PyNum 400]"

definition call_no_iv :: contract where
  \<comment> \<open>\<open>call_a\<close> as a provider sends it that has no implied volatility for it\<close>
  "call_no_iv =
     [''symbol'' \<mapsto> PyStr ''XYZ_C_A'', ''type'' \<mapsto> PyStr ''call'',
      ''expiration_date'' \<mapsto> PyStr ''2026-12-15'', ''delta'' \<mapsto> PyNum 0.40,
      ''bid'' \<mapsto> PyNum 0.48, ''ask'' \<mapsto> PyNum 0.50,
      ''volume'' \<mapsto> PyNum 150, ''open_interest'' \<mapsto> PyNum 250]"

definition call_bad_delta :: contract where
  \<comment> \<open>\<open>call_a\<close> with a delta that is no number\<close>
  "call_bad_delta =
     [''symbol'' \<mapsto> PyStr ''XYZ_C_A'', ''type'' \<mapsto> PyStr ''call'',
      ''expiration_date'' \<mapsto> PyStr ''2026-12-15'', ''delta'' \<mapsto> PyStr ''abc'',
      ''implied_volatility'' \<mapsto> PyNum 0.25, ''bid'' \<mapsto> PyNum 0.48, ''ask'' \<mapsto> PyNum 0.50,
      ''volume'' \<mapsto> PyNum 150, ''open_interest'' \<mapsto> PyNum 250]"

definition call_d :: contract where
  \<comment> \<open>at the delta midpoint 0.50 of \<open>tie_config\<close>, with the least open interest\<close>
  "call_d =
     [''symbol'' \<mapsto> PyStr ''XYZ_C_D'', ''type'' \<mapsto> PyStr ''call'',
      ''expiration_date'' \<mapsto> PyStr ''2026-12-15'', ''delta'' \<mapsto> PyNum 0.5,
      ''implied_volatility'' \<mapsto> PyNum 0.25, ''bid'' \<mapsto> PyNum 0.48, ''ask'' \<mapsto> PyNum 0.50,
      ''volume'' \<mapsto> PyNum 150, ''open_interest'' \<mapsto> PyNum 150]"


text \<open>
  Two calls whose deltas are the doubles that Python writes \<^verbatim>\<open>0.35\<close> and \<^verbatim>\<open>0.45\<close>, under
  the delta band of the doubles \<^verbatim>\<open>0.3\<close> and \<^verbatim>\<open>0.5\<close>. The sum of the bounds is no double
  and rounds to the double \<^verbatim>\<open>0.8\<close>; its half \<^verbatim>\<open>0.4\<close> and the two differences are exact,
  so \<open>double_env\<close> rounds that sum and nothing else.
\<close>

definition call_d35 :: contract where
  "call_d35 =
     [''symbol'' \<mapsto> PyStr ''D35'', ''type'' \<mapsto> PyStr ''call'',
      ''expiration_date'' \<mapsto> PyStr ''2026-12-15'',
      ''delta'' \<mapsto> PyNum (3152519739159347 / 9007199254740992),
      ''implied_volatility'' \<mapsto> PyNum 0.25, ''bid'' \<mapsto> PyNum 0.5, ''ask'' \<mapsto> PyNum 0.5,
      ''volume'' \<mapsto> PyNum 150, ''open_interest'' \<mapsto> PyNum 400]"

definition call_d45 :: contract where
  "call_d45 =
     [''symbol'' \<mapsto> PyStr ''D45'', ''type'' \<mapsto> PyStr ''call'',
      ''expiration_date'' \<mapsto> PyStr ''2026-12-15'',
      ''delta'' \<mapsto> PyNum (8106479329266893 / 18014398509481984),
      ''implied_volatility'' \<mapsto> PyNum 0.25, ''bid'' \<mapsto> PyNum 0.5, ''ask'' \<mapsto> PyNum 0.5,
      ''volume'' \<mapsto> PyNum 150, ''open_interest'' \<mapsto> PyNum 250]"

definition double_config :: config where
  "double_config =
     default_config\<lparr>target_delta_min := 5404319552844595 / 18014398509481984,
                    target_delta_max := 1 / 2\<rparr>"

definition double_env :: pyenv where
  "double_env =
     example_env\<lparr>fl_round :=
       (\<lambda>x. if x = 14411518807585587 / 18014398509481984
            then 3602879701896397 / 4503599627370496 else x)\<rparr>"

definition tie_config :: config where
  \<comment> \<open>the default configuration with the delta band 0.25 to 0.75, whose midpoint is 0.50\<close>
  "tie_config = default_config\<lparr>target_delta_min := 0.25, target_delta_max := 0.75\<rparr>"

definition wide_delta_config :: config where
  \<comment> \<open>the default configuration with the delta band opened down to 0\<close>
  "wide_delta_config = default_config\<lparr>target_delta_min := 0\<rparr>"


definition call_no_delta :: contract where
  \<comment> \<open>\<open>call_a\<close> without the \<^verbatim>\<open>'delta'\<close> key\<close>
  "call_no_delta =
     [''symbol'' \<mapsto> PyStr ''XYZ_C_A'', ''type'' \<mapsto> PyStr ''call'',
      ''expiration_date'' \<mapsto> PyStr ''2026-12-15'',
      ''implied_volatility'' \<mapsto> PyNum 0.25, ''bid'' \<mapsto> PyNum 0.48, ''ask'' \<mapsto> PyNum 0.50,
      ''volume'' \<mapsto> PyNum 150, ''open_interest'' \<mapsto> PyNum 250]"




section \<open>Auxiliary facts\<close>

subsection \<open>The crossover strategy\<close>

lemma fresh_strategy_eq:
  "fresh_strategy =
     \<lparr>short_window = 1, long_window = 2, forex_pair = ''EUR.USD'',
      prices = [Fin 1, Fin 1], short_ma = Some (Fin 1), long_ma = Some (Fin 1),
      historical_bars_df = Some [flat_bar 1, flat_bar 1],
      data_initialized = True, position = 0\<rparr>"
  by (simp add: fresh_strategy_def initialize_with_historical_data_def strategy_init_def
      flat_bar_def no_sort_def close_column_def rolling_mean_last_def fl_sum_def
      deque_append_def Let_def)

lemma on_new_tick_position:
  "position (snd (on_new_tick s p)) \<in> {position s, 1, - 1}"
  by (simp add: on_new_tick_def crossover_def Let_def split: sum.splits option.splits)

lemma initialize_position:
  "position (snd (initialize_with_historical_data sbd s bars)) = position s"
  by (simp add: initialize_with_historical_data_def Let_def)

subsection \<open>The filter loop and the ranking\<close>

lemma liquidity_and_spread_Inr:
  "liquidity_and_spread cfg c = Inr b \<Longrightarrow> b = (liquidity_stage cfg c \<and> spread_stage cfg c)"
  unfolding liquidity_and_spread_def liquidity_stage_def spread_stage_def
  by (auto split: sum.splits if_splits)

lemma delta_filter_stage: "delta_filter cfg env c = delta_stage cfg env c"
  by (simp add: delta_filter_def delta_stage_def dict_get_def split: option.splits)

lemma check_contract_Inr:
  "check_contract cfg env hv desired c = Inr r \<Longrightarrow>
     r = (if survives cfg env hv desired c then Some (with_dte env c) else None)"
  unfolding check_contract_def survives_def type_stage_def dte_stage_def dte_of_def
    with_dte_def dict_item_def delta_filter_stage
  by (auto split: sum.splits if_splits option.splits dest: liquidity_and_spread_Inr)

lemma eligible_contracts_Inr:
  "eligible_contracts cfg env hv desired chain = Inr es \<Longrightarrow>
     es = map (with_dte env) (filter (survives cfg env hv desired) chain)"
proof (induction chain arbitrary: es)
  case Nil
  then show ?case by simp
next
  case (Cons c cs)
  from Cons.prems obtain r es' where
    r: "check_contract cfg env hv desired c = Inr r"
    and es': "eligible_contracts cfg env hv desired cs = Inr es'"
    and es: "es = (case r of None \<Rightarrow> es' | Some c' \<Rightarrow> c' # es')"
    by (auto split: sum.splits)
  from check_contract_Inr [OF r] Cons.IH [OF es'] es show ?case
    by simp
qed

lemma define_orders_unfold:
  assumes "signals \<noteq> []" "last signals \<noteq> 0" "chain \<noteq> []"
  shows "define_orders cfg env signals bal (Some chain) (Some p) hv =
     (case eligible_contracts cfg env hv (if last signals > 0 then ''call'' else ''put'') chain of
        Inl e \<Rightarrow> Inl e
      | Inr es \<Rightarrow>
          if es = [] then Inr []
          else (case select_contract cfg env es of
                  Inl e \<Rightarrow> Inl e
                | Inr sel \<Rightarrow>
                    size_order cfg bal (if last signals > 0 then ''call'' else ''put'') sel))"
  using assms by (simp add: define_orders_def Let_def)

lemma sort_keys_Inr:
  "sort_keys cfg env es = Inr ks \<Longrightarrow> list_all2 (\<lambda>k c. sort_key_of cfg env c = Inr k) ks es"
proof (induction es arbitrary: ks)
  case Nil
  then show ?case by simp
next
  case (Cons c cs)
  then show ?case by (auto split: sum.splits)
qed

lemma sort_keys_total:
  "\<forall>c \<in> set es. \<exists>k. sort_key_of cfg env c = Inr k \<Longrightarrow> \<exists>ks. sort_keys cfg env es = Inr ks"
  by (induction es) auto

lemma sort_key_head_least:
  assumes "sort_key f xs = y # ys"
  shows "y \<in> set xs \<and> (\<forall>x \<in> set xs. f y \<le> f x)"
proof -
  have "set (y # ys) = set xs" using assms set_sort [of f xs] by simp
  moreover have "sorted (map f (y # ys))" using assms sorted_sort_key [of f xs] by simp
  ultimately show ?thesis by auto
qed

lemma select_contract_least:
  assumes ks: "sort_keys cfg env es = Inr ks" and ne: "es \<noteq> []"
  shows "\<exists>sel k. select_contract cfg env es = Inr sel \<and> sel \<in> set es
           \<and> sort_key_of cfg env sel = Inr k
           \<and> (\<forall>c \<in> set es. \<exists>k'. sort_key_of cfg env c = Inr k' \<and> k \<le> k')"
proof -
  from sort_keys_Inr [OF ks]
  have l2: "list_all2 (\<lambda>k c. sort_key_of cfg env c = Inr k) ks es" .
  then have len: "length ks = length es" by (rule list_all2_lengthD)
  with ne have "zip ks es \<noteq> []" by (cases ks; cases es) auto
  then have "sort_key fst (zip ks es) \<noteq> []"
    by (metis length_sort length_0_conv)
  then obtain y ys where y: "sort_key fst (zip ks es) = y # ys"
    by (cases "sort_key fst (zip ks es)") auto
  from sort_key_head_least [OF y]
  have yin: "y \<in> set (zip ks es)" and least: "\<forall>x \<in> set (zip ks es). fst y \<le> fst x"
    by auto
  have pairs: "\<And>k c. (k, c) \<in> set (zip ks es) \<Longrightarrow> sort_key_of cfg env c = Inr k"
    using l2 by (auto simp: list_all2_iff)
  have sel: "select_contract cfg env es = Inr (snd y)"
    by (simp add: select_contract_def ks y)
  have "snd y \<in> set es" using yin by (metis in_set_zipE prod.collapse)
  moreover have "sort_key_of cfg env (snd y) = Inr (fst y)"
    using pairs [of "fst y" "snd y"] yin by simp
  moreover have "\<forall>c \<in> set es. \<exists>k'. sort_key_of cfg env c = Inr k' \<and> fst y \<le> k'"
  proof
    fix c assume "c \<in> set es"
    then obtain i where i: "i < length es" "es ! i = c" by (auto simp: in_set_conv_nth)
    then have "(ks ! i, c) \<in> set (zip ks es)"
      using len by (auto simp: set_zip)
    then show "\<exists>k'. sort_key_of cfg env c = Inr k' \<and> fst y \<le> k'"
      using pairs least by fastforce
  qed
  ultimately show ?thesis using sel by blast
qed

lemma sort_key_of_survivor:
  assumes "survives cfg env hv desired c"
  shows "\<exists>k. sort_key_of cfg env (with_dte env c) = Inr k"
proof -
  have d: "dict_get (with_dte env c) ''delta'' v = dict_get c ''delta'' v" for v
    by (simp add: with_dte_def dict_get_def split: option.splits)
  have o: "dict_get (with_dte env c) ''open_interest'' v = dict_get c ''open_interest'' v" for v
    by (simp add: with_dte_def dict_get_def split: option.splits)
  from assms have "delta_filter cfg env c" "liquidity_stage cfg c"
    by (simp_all add: survives_def delta_filter_stage)
  then show ?thesis
    by (auto simp: sort_key_of_def delta_distance_def open_interest_of_def d o
        delta_filter_def liquidity_stage_def split: sum.splits)
qed

lemma sort_key_of_cases:
  "sort_key_of cfg env c = Inr k \<Longrightarrow>
     \<exists>d oi. py_float env (dict_get c ''delta'' (PyNum 0)) = Inr d
       \<and> py_num (dict_get c ''open_interest'' (PyNum 0)) = Inr oi
       \<and> k = (midpoint_distance cfg env d, - oi)"
  by (auto simp: sort_key_of_def delta_distance_def open_interest_of_def midpoint_distance_def
      split: sum.splits)


lemma size_order_formatted:
  assumes "sel ''ask'' = Some (PyNum a)" "0 < a" "sel ''symbol'' = Some sy"
    and "sel ''implied_volatility'' = Some (PyNum iv)" "sel ''delta'' = Some (PyNum d)"
  shows "size_order cfg b desired sel =
     (if \<lfloor>(b * risk_per_trade_pct cfg) / (a * 100)\<rfloor> = 0 then Inr []
      else Inr [\<lparr>symbol = sy, order_type = ''market'', side = ''buy_to_open'',
                 quantity = \<lfloor>(b * risk_per_trade_pct cfg) / (a * 100)\<rfloor>,
                 price_at_decision = a,
                 estimated_cost =
                   a * real_of_int \<lfloor>(b * risk_per_trade_pct cfg) / (a * 100)\<rfloor> * 100,
                 tag = strategy_name @ ''_'' @ desired\<rparr>])"
  using assms by (simp add: size_order_def dict_item_def dict_get_def Let_def)











lemma check_contract_coercion_failure:
  assumes "c ''type'' \<noteq> None" "dte_of env c \<noteq> None" "coercion_failure cfg env c"
  shows "check_contract cfg env hv desired c = Inr None"
proof -
  from assms(3) have "\<not> delta_filter cfg env c \<or> \<not> passes_iv_filter cfg env c hv"
    by (auto simp: coercion_failure_def delta_filter_def passes_iv_filter_def Let_def isl_def
        split: sum.splits)
  with assms(1,2) show ?thesis
    by (auto simp: check_contract_def dict_item_def dte_of_def split: option.splits sum.splits)
qed

lemma eligible_contracts_skip:
  assumes "check_contract cfg env hv desired c = Inr None"
  shows "eligible_contracts cfg env hv desired (xs @ c # ys)
     = eligible_contracts cfg env hv desired (xs @ ys)"
proof (induction xs)
  case Nil
  show ?case using assms by (simp split: sum.splits)
next
  case (Cons x xs)
  then show ?case by (simp cong: sum.case_cong)
qed

lemma define_orders_no_decision:
  assumes "signals \<noteq> []"
    and "options_chain = None \<or> options_chain = Some [] \<or> underlying_price = None
          \<or> last signals = 0"
  shows "define_orders cfg env signals bal options_chain underlying_price hv = Inr []"
  using assms by (auto simp: define_orders_def Let_def split: option.splits)

subsection \<open>Evaluations at the concrete inputs\<close>

lemmas stage_defs = check_contract_def dict_item_def dict_get_def calculate_dte_def
  delta_filter_def passes_iv_filter_def liquidity_and_spread_def



lemma check_call_no_iv:
  "check_contract default_config example_env None ''call'' call_no_iv
     = Inr (Some (call_no_iv(''dte'' \<mapsto> PyNum 40)))"
  by (simp add: stage_defs example_env_def call_no_iv_def default_config_def Let_def)

lemma check_call_b:
  "check_contract tie_config example_env None ''call'' call_b
     = Inr (Some (call_b(''dte'' \<mapsto> PyNum 40)))"
  by (simp add: stage_defs example_env_def call_b_def tie_config_def default_config_def Let_def)

lemma check_call_c:
  "check_contract tie_config example_env None ''call'' call_c
     = Inr (Some (call_c(''dte'' \<mapsto> PyNum 40)))"
  by (simp add: stage_defs example_env_def call_c_def tie_config_def default_config_def Let_def)


lemma check_call_d:
  "check_contract tie_config example_env None ''call'' call_d
     = Inr (Some (call_d(''dte'' \<mapsto> PyNum 40)))"
  by (simp add: stage_defs example_env_def call_d_def tie_config_def default_config_def Let_def)

lemma check_call_d35:
  "check_contract double_config double_env None ''call'' call_d35
     = Inr (Some (call_d35(''dte'' \<mapsto> PyNum 40)))"
  by (simp add: stage_defs double_env_def example_env_def call_d35_def double_config_def
      default_config_def Let_def)

lemma check_call_d45:
  "check_contract double_config double_env None ''call'' call_d45
     = Inr (Some (call_d45(''dte'' \<mapsto> PyNum 40)))"
  by (simp add: stage_defs double_env_def example_env_def call_d45_def double_config_def
      default_config_def Let_def)

lemmas key_defs = select_contract_def sort_key_of_def delta_distance_def open_interest_of_def
  dict_get_def

lemma select_call_b_call_c:
  "select_contract tie_config example_env
       [call_b(''dte'' \<mapsto> PyNum 40), call_c(''dte'' \<mapsto> PyNum 40)]
     = Inr (call_c(''dte'' \<mapsto> PyNum 40))"
  by (simp add: key_defs example_env_def call_b_def call_c_def tie_config_def default_config_def)

lemma select_call_c_call_d:
  "select_contract tie_config example_env
       [call_c(''dte'' \<mapsto> PyNum 40), call_d(''dte'' \<mapsto> PyNum 40)]
     = Inr (call_d(''dte'' \<mapsto> PyNum 40))"
  by (simp add: key_defs example_env_def call_c_def call_d_def tie_config_def default_config_def)

lemma select_call_d35_call_d45:
  "select_contract double_config double_env
       [call_d35(''dte'' \<mapsto> PyNum 40), call_d45(''dte'' \<mapsto> PyNum 40)]
     = Inr (call_d45(''dte'' \<mapsto> PyNum 40))"
  by (simp add: key_defs double_env_def example_env_def call_d35_def call_d45_def
      double_config_def default_config_def)

lemma check_call_bad_delta_wide:
  "check_contract wide_delta_config example_env None ''call'' call_bad_delta = Inr None"
  by (simp add: stage_defs example_env_def call_bad_delta_def wide_delta_config_def
      default_config_def Let_def)

lemma check_call_no_delta_wide:
  "check_contract wide_delta_config example_env None ''call'' call_no_delta
     = Inr (Some (call_no_delta(''dte'' \<mapsto> PyNum 40)))"
  by (simp add: stage_defs example_env_def call_no_delta_def wide_delta_config_def
      default_config_def Let_def)

lemma size_order_call_a:
  "size_order default_config 10000 ''call'' (call_a(''dte'' \<mapsto> PyNum 40)) =
     Inr [\<lparr>symbol = PyStr ''XYZ_C_A'', order_type = ''market'', side = ''buy_to_open'',
           quantity = 2, price_at_decision = 0.5, estimated_cost = 100,
           tag = ''AdvancedOptionsStrategy_call''\<rparr>]"
  by (simp add: size_order_def dict_item_def dict_get_def Let_def call_a_def default_config_def
      strategy_name_def)

lemma size_order_ask_two:
  "size_order default_config 10000 ''call'' (call_a(''ask'' \<mapsto> PyNum 2.00)) = Inr []"
  by (simp add: size_order_def dict_item_def dict_get_def Let_def call_a_def default_config_def)

section \<open>The options contract selector: the claims\<close>




text \<open>
  C2 as claimed fails. The deltas of \<open>call_d35\<close> and \<open>call_d45\<close> are at the same
  distance from the midpoint of the delta band, and \<open>call_d35\<close> has the higher open
  interest, 400 against 250. The code computes the midpoint in floating point: the sum of
  the bounds rounds up, the computed distances are no longer equal, the open interest is
  never compared, and \<open>call_d45\<close> is selected and ordered.
\<close>

theorem equidistant_lower_open_interest_selected:
  "\<bar>\<bar>3152519739159347 / 9007199254740992\<bar>
      - (target_delta_min double_config + target_delta_max double_config) / 2\<bar>
     = \<bar>\<bar>8106479329266893 / 18014398509481984 :: real\<bar>
      - (target_delta_min double_config + target_delta_max double_config) / 2\<bar>
   \<and> call_d35 ''delta'' = Some (PyNum (3152519739159347 / 9007199254740992))
   \<and> call_d45 ''delta'' = Some (PyNum (8106479329266893 / 18014398509481984))
   \<and> call_d35 ''open_interest'' = Some (PyNum 400)
   \<and> call_d45 ''open_interest'' = Some (PyNum 250)
   \<and> eligible_contracts double_config double_env None ''call'' [call_d35, call_d45]
       = Inr [call_d35(''dte'' \<mapsto> PyNum 40), call_d45(''dte'' \<mapsto> PyNum 40)]
   \<and> select_contract double_config double_env
         [call_d35(''dte'' \<mapsto> PyNum 40), call_d45(''dte'' \<mapsto> PyNum 40)]
       = Inr (call_d45(''dte'' \<mapsto> PyNum 40))
   \<and> map_sum id (map symbol)
         (define_orders double_config double_env [1] 10000 (Some [call_d35, call_d45])
            (Some 100) None)
       = Inr [PyStr ''D45'']"
proof -
  let ?es = "[call_d35(''dte'' \<mapsto> PyNum 40), call_d45(''dte'' \<mapsto> PyNum 40)]"
  have tie: "\<bar>\<bar>3152519739159347 / 9007199254740992\<bar>
      - (target_delta_min double_config + target_delta_max double_config) / 2\<bar>
     = \<bar>\<bar>8106479329266893 / 18014398509481984 :: real\<bar>
      - (target_delta_min double_config + target_delta_max double_config) / 2\<bar>"
    by (simp add: double_config_def default_config_def)
  have f: "call_d35 ''delta'' = Some (PyNum (3152519739159347 / 9007199254740992))"
    "call_d45 ''delta'' = Some (PyNum (8106479329266893 / 18014398509481984))"
    "call_d35 ''open_interest'' = Some (PyNum 400)"
    "call_d45 ''open_interest'' = Some (PyNum 250)"
    by (simp_all add: call_d35_def call_d45_def)
  have e: "eligible_contracts double_config double_env None ''call'' [call_d35, call_d45]
       = Inr ?es"
    by (simp add: check_call_d35 check_call_d45)
  have z: "map_sum id (map symbol)
       (size_order double_config 10000 ''call'' (call_d45(''dte'' \<mapsto> PyNum 40)))
     = Inr [PyStr ''D45'']"
    by (simp add: size_order_def dict_item_def dict_get_def call_d45_def double_config_def
        default_config_def Let_def)
  have "define_orders double_config double_env [1] 10000 (Some [call_d35, call_d45])
         (Some 100) None =
     (case eligible_contracts double_config double_env None ''call'' [call_d35, call_d45] of
        Inl e \<Rightarrow> Inl e
      | Inr es \<Rightarrow>
          if es = [] then Inr []
          else (case select_contract double_config double_env es of
                  Inl e \<Rightarrow> Inl e
                | Inr sel \<Rightarrow> size_order double_config 10000 ''call'' sel))"
    by (subst define_orders_unfold) simp_all
  then have "define_orders double_config double_env [1] 10000 (Some [call_d35, call_d45])
         (Some 100) None
       = size_order double_config 10000 ''call'' (call_d45(''dte'' \<mapsto> PyNum 40))"
    by (simp add: e select_call_d35_call_d45 del: eligible_contracts.simps)
  with z have "map_sum id (map symbol)
         (define_orders double_config double_env [1] 10000 (Some [call_d35, call_d45])
            (Some 100) None)
       = Inr [PyStr ''D45'']"
    by simp
  with tie f e select_call_d35_call_d45 show ?thesis by (intro conjI)
qed

text \<open>
  C2, amended. With a chain, an underlying price and a non-zero latest signal: when no
  contract survives, \<^verbatim>\<open>define_orders\<close> returns the empty list and raises nothing;
  otherwise the ranking succeeds and the contract it selects is a survivor for which the
  distance of the absolute delta from the midpoint of the delta band, as floating-point
  arithmetic computes it (the sum of the bounds, its half and the difference each
  rounded), is least among the survivors, and among the survivors with that same computed
  distance none has more open interest. The order is sized from that contract.
\<close>

theorem selection_minimizes_delta_distance:
  assumes sig: "signals \<noteq> []" "last signals \<noteq> 0"
    and chain: "chain \<noteq> []"
    and desired: "desired = (if last signals > 0 then ''call'' else ''put'')"
    and elig: "eligible_contracts cfg env hv desired chain = Inr es"
  shows "(es = [] \<longrightarrow> define_orders cfg env signals bal (Some chain) (Some p) hv = Inr [])
    \<and> (es \<noteq> [] \<longrightarrow>
         (\<exists>sel dsel osel.
            select_contract cfg env es = Inr sel \<and> sel \<in> set es
            \<and> define_orders cfg env signals bal (Some chain) (Some p) hv
                = size_order cfg bal desired sel
            \<and> py_float env (dict_get sel ''delta'' (PyNum 0)) = Inr dsel
            \<and> py_num (dict_get sel ''open_interest'' (PyNum 0)) = Inr osel
            \<and> (\<forall>c \<in> set es. \<exists>dc oc.
                  py_float env (dict_get c ''delta'' (PyNum 0)) = Inr dc
                  \<and> py_num (dict_get c ''open_interest'' (PyNum 0)) = Inr oc
                  \<and> midpoint_distance cfg env dsel \<le> midpoint_distance cfg env dc
                  \<and> (midpoint_distance cfg env dc = midpoint_distance cfg env dsel
                       \<longrightarrow> oc \<le> osel))))"
proof -
  have unf: "define_orders cfg env signals bal (Some chain) (Some p) hv =
      (if es = [] then Inr []
       else (case select_contract cfg env es of
               Inl e \<Rightarrow> Inl e
             | Inr sel \<Rightarrow> size_order cfg bal desired sel))"
    using define_orders_unfold [OF sig chain, of cfg env bal p hv] elig
    unfolding desired by simp
  have es: "es = map (with_dte env) (filter (survives cfg env hv desired) chain)"
    using eligible_contracts_Inr [OF elig] .
  have "\<forall>c \<in> set es. \<exists>k. sort_key_of cfg env c = Inr k"
    unfolding es using sort_key_of_survivor by auto
  from sort_keys_total [OF this] obtain ks where ks: "sort_keys cfg env es = Inr ks" ..
  show ?thesis
  proof (intro conjI impI)
    assume "es = []"
    then show "define_orders cfg env signals bal (Some chain) (Some p) hv = Inr []"
      using unf by simp
  next
    assume ne: "es \<noteq> []"
    from select_contract_least [OF ks ne] obtain sel k where
      sel: "select_contract cfg env es = Inr sel" "sel \<in> set es"
      and k: "sort_key_of cfg env sel = Inr k"
      and least: "\<forall>c \<in> set es. \<exists>k'. sort_key_of cfg env c = Inr k' \<and> k \<le> k'"
      by blast
    from sort_key_of_cases [OF k] obtain dsel osel where
      dsel: "py_float env (dict_get sel ''delta'' (PyNum 0)) = Inr dsel"
        "py_num (dict_get sel ''open_interest'' (PyNum 0)) = Inr osel"
      and keq: "k = (midpoint_distance cfg env dsel, - osel)" by blast
    have "\<forall>c \<in> set es. \<exists>dc oc.
            py_float env (dict_get c ''delta'' (PyNum 0)) = Inr dc
            \<and> py_num (dict_get c ''open_interest'' (PyNum 0)) = Inr oc
            \<and> midpoint_distance cfg env dsel \<le> midpoint_distance cfg env dc
            \<and> (midpoint_distance cfg env dc = midpoint_distance cfg env dsel \<longrightarrow> oc \<le> osel)"
    proof
      fix c assume "c \<in> set es"
      with least obtain k' where k': "sort_key_of cfg env c = Inr k'" "k \<le> k'" by blast
      from sort_key_of_cases [OF k'(1)] obtain dc oc where
        "py_float env (dict_get c ''delta'' (PyNum 0)) = Inr dc"
        "py_num (dict_get c ''open_interest'' (PyNum 0)) = Inr oc"
        "k' = (midpoint_distance cfg env dc, - oc)"
        by blast
      with k'(2) keq show "\<exists>dc oc.
            py_float env (dict_get c ''delta'' (PyNum 0)) = Inr dc
            \<and> py_num (dict_get c ''open_interest'' (PyNum 0)) = Inr oc
            \<and> midpoint_distance cfg env dsel \<le> midpoint_distance cfg env dc
            \<and> (midpoint_distance cfg env dc = midpoint_distance cfg env dsel \<longrightarrow> oc \<le> osel)"
        by auto
    qed
    moreover have "define_orders cfg env signals bal (Some chain) (Some p) hv
        = size_order cfg bal desired sel"
      using unf ne sel(1) by simp
    ultimately show "\<exists>sel dsel osel.
            select_contract cfg env es = Inr sel \<and> sel \<in> set es
            \<and> define_orders cfg env signals bal (Some chain) (Some p) hv
                = size_order cfg bal desired sel
            \<and> py_float env (dict_get sel ''delta'' (PyNum 0)) = Inr dsel
            \<and> py_num (dict_get sel ''open_interest'' (PyNum 0)) = Inr osel
            \<and> (\<forall>c \<in> set es. \<exists>dc oc.
                  py_float env (dict_get c ''delta'' (PyNum 0)) = Inr dc
                  \<and> py_num (dict_get c ''open_interest'' (PyNum 0)) = Inr oc
                  \<and> midpoint_distance cfg env dsel \<le> midpoint_distance cfg env dc
                  \<and> (midpoint_distance cfg env dc = midpoint_distance cfg env dsel
                       \<longrightarrow> oc \<le> osel))"
      using sel dsel by blast
  qed
qed

theorem selection_minimizes_delta_distance_witness:
  "[1 :: real] \<noteq> [] \<and> last [1 :: real] \<noteq> 0
   \<and> ''call'' = (if last [1 :: real] > 0 then ''call'' else ''put'')
   \<and> [call_b, call_c] \<noteq> []
   \<and> eligible_contracts tie_config example_env None ''call'' [call_b, call_c]
       = Inr [call_b(''dte'' \<mapsto> PyNum 40), call_c(''dte'' \<mapsto> PyNum 40)]
   \<and> midpoint_distance tie_config example_env 0.25 = midpoint_distance tie_config example_env 0.75
   \<and> define_orders tie_config example_env [1] 10000 (Some [call_b, call_c]) (Some 100) None
       = size_order tie_config 10000 ''call'' (call_c(''dte'' \<mapsto> PyNum 40))
   \<and> [call_c, call_d] \<noteq> []
   \<and> eligible_contracts tie_config example_env None ''call'' [call_c, call_d]
       = Inr [call_c(''dte'' \<mapsto> PyNum 40), call_d(''dte'' \<mapsto> PyNum 40)]
   \<and> midpoint_distance tie_config example_env 0.5 < midpoint_distance tie_config example_env 0.75
   \<and> define_orders tie_config example_env [1] 10000 (Some [call_c, call_d]) (Some 100) None
       = size_order tie_config 10000 ''call'' (call_d(''dte'' \<mapsto> PyNum 40))
   \<and> [call_d35, call_d45] \<noteq> []
   \<and> eligible_contracts double_config double_env None ''call'' [call_d35, call_d45]
       = Inr [call_d35(''dte'' \<mapsto> PyNum 40), call_d45(''dte'' \<mapsto> PyNum 40)]
   \<and> midpoint_distance double_config double_env (8106479329266893 / 18014398509481984)
       < midpoint_distance double_config double_env (3152519739159347 / 9007199254740992)
   \<and> define_orders double_config double_env [1] 10000 (Some [call_d35, call_d45]) (Some 100) None
       = size_order double_config 10000 ''call'' (call_d45(''dte'' \<mapsto> PyNum 40))"
proof -
  have h1: "[1 :: real] \<noteq> []" by simp
  have h2: "last [1 :: real] \<noteq> 0" by simp
  have h4: "''call'' = (if last [1 :: real] > 0 then ''call'' else ''put'')" by simp
  have n1: "[call_b, call_c] \<noteq> []" and n2: "[call_c, call_d] \<noteq> []"
    and n3: "[call_d35, call_d45] \<noteq> []" by simp_all
  have e1: "eligible_contracts tie_config example_env None ''call'' [call_b, call_c]
       = Inr [call_b(''dte'' \<mapsto> PyNum 40), call_c(''dte'' \<mapsto> PyNum 40)]"
    by (simp add: check_call_b check_call_c)
  have e2: "eligible_contracts tie_config example_env None ''call'' [call_c, call_d]
       = Inr [call_c(''dte'' \<mapsto> PyNum 40), call_d(''dte'' \<mapsto> PyNum 40)]"
    by (simp add: check_call_c check_call_d)
  have e3: "eligible_contracts double_config double_env None ''call'' [call_d35, call_d45]
       = Inr [call_d35(''dte'' \<mapsto> PyNum 40), call_d45(''dte'' \<mapsto> PyNum 40)]"
    by (simp add: check_call_d35 check_call_d45)
  have m1: "midpoint_distance tie_config example_env 0.25
       = midpoint_distance tie_config example_env 0.75"
    by (simp add: midpoint_distance_def example_env_def tie_config_def default_config_def)
  have m2: "midpoint_distance tie_config example_env 0.5
       < midpoint_distance tie_config example_env 0.75"
    by (simp add: midpoint_distance_def example_env_def tie_config_def default_config_def)
  have m3: "midpoint_distance double_config double_env (8106479329266893 / 18014398509481984)
       < midpoint_distance double_config double_env (3152519739159347 / 9007199254740992)"
    by (simp add: midpoint_distance_def double_env_def example_env_def double_config_def
        default_config_def)
  from selection_minimizes_delta_distance [OF h1 h2 n1 h4 e1, of 10000 100]
  have d1: "define_orders tie_config example_env [1] 10000 (Some [call_b, call_c]) (Some 100) None
       = size_order tie_config 10000 ''call'' (call_c(''dte'' \<mapsto> PyNum 40))"
    using select_call_b_call_c by auto
  from selection_minimizes_delta_distance [OF h1 h2 n2 h4 e2, of 10000 100]
  have d2: "define_orders tie_config example_env [1] 10000 (Some [call_c, call_d]) (Some 100) None
       = size_order tie_config 10000 ''call'' (call_d(''dte'' \<mapsto> PyNum 40))"
    using select_call_c_call_d by auto
  from selection_minimizes_delta_distance [OF h1 h2 n3 h4 e3, of 10000 100]
  have d3: "define_orders double_config double_env [1] 10000 (Some [call_d35, call_d45])
         (Some 100) None
       = size_order double_config 10000 ''call'' (call_d45(''dte'' \<mapsto> PyNum 40))"
    using select_call_d35_call_d45 by auto
  show ?thesis
    by (intro conjI h1 h2 h4 n1 n2 n3 e1 e2 e3 m1 m2 m3 d1 d2 d3)
qed

text \<open>
  C3 (the code departs from the claim). The chain holds one call that passes every stage
  and has no \<^verbatim>\<open>'implied_volatility'\<close> key, which the IV filter lets through. The balance
  10000, the risk fraction 0.01 and the ask 0.50 give the quantity 2, the order is built,
  and then the log line formats \<^verbatim>\<open>selected_contract.get('implied_volatility', 'N/A')\<close>
  with \<^verbatim>\<open>:.2f\<close>: ValueError leaves \<^verbatim>\<open>define_orders\<close> and no order list is returned.
\<close>

theorem missing_iv_order_lost_in_log_line:
  "eligible_contracts default_config example_env None ''call'' [call_no_iv]
     = Inr [call_no_iv(''dte'' \<mapsto> PyNum 40)]
   \<and> \<lfloor>(10000 * risk_per_trade_pct default_config) / (0.50 * 100)\<rfloor> = (2 :: int)
   \<and> define_orders default_config example_env [1] 10000 (Some [call_no_iv]) (Some 100) None
       = Inl ValueError"
proof -
  let ?c = "call_no_iv(''dte'' \<mapsto> PyNum 40)"
  have e: "eligible_contracts default_config example_env None ''call'' [call_no_iv] = Inr [?c]"
    by (simp add: check_call_no_iv)
  have k: "select_contract default_config example_env [?c] = Inr ?c"
    by (simp add: select_contract_def sort_key_of_def delta_distance_def open_interest_of_def
        dict_get_def call_no_iv_def)
  have z: "size_order default_config 10000 ''call'' ?c = Inl ValueError"
    by (simp add: size_order_def dict_item_def dict_get_def call_no_iv_def default_config_def
        Let_def)
  have q: "\<lfloor>(10000 * risk_per_trade_pct default_config) / (0.50 * 100)\<rfloor> = (2 :: int)"
    by (simp add: default_config_def)
  have "define_orders default_config example_env [1] 10000 (Some [call_no_iv]) (Some 100) None =
     (case eligible_contracts default_config example_env None ''call'' [call_no_iv] of
        Inl e \<Rightarrow> Inl e
      | Inr es \<Rightarrow>
          if es = [] then Inr []
          else (case select_contract default_config example_env es of
                  Inl e \<Rightarrow> Inl e
                | Inr sel \<Rightarrow> size_order default_config 10000 ''call'' sel))"
    by (subst define_orders_unfold) simp_all
  then have "define_orders default_config example_env [1] 10000 (Some [call_no_iv]) (Some 100) None
       = Inl ValueError"
    by (simp add: e k z del: eligible_contracts.simps)
  with e q show ?thesis by (intro conjI)
qed



text \<open>
  C5 as claimed fails: with the delta band opened to [0, 0.50], which holds 0.0, the
  contract whose delta is the string \<^verbatim>\<open>'abc'\<close> is still excluded, because \<^verbatim>\<open>float\<close> raises
  and the \<^verbatim>\<open>except (ValueError, TypeError): continue\<close> of the delta stage skips the
  contract; the same contract without a \<^verbatim>\<open>'delta'\<close> key is read as 0.0 and survives.
\<close>

theorem non_numeric_delta_rejected_with_zero_in_band:
  "call_bad_delta ''delta'' = Some (PyStr ''abc'')
   \<and> py_float example_env (PyStr ''abc'') = Inl ValueError
   \<and> target_delta_min wide_delta_config \<le> 0 \<and> 0 \<le> target_delta_max wide_delta_config
   \<and> \<not> delta_filter wide_delta_config example_env call_bad_delta
   \<and> eligible_contracts wide_delta_config example_env None ''call'' [call_bad_delta] = Inr []
   \<and> eligible_contracts wide_delta_config example_env None ''call'' [call_no_delta]
       = Inr [call_no_delta(''dte'' \<mapsto> PyNum 40)]"
proof -
  have "call_bad_delta ''delta'' = Some (PyStr ''abc'')"
    by (simp add: call_bad_delta_def)
  moreover have "py_float example_env (PyStr ''abc'') = Inl ValueError"
    by (simp add: example_env_def)
  moreover have "target_delta_min wide_delta_config \<le> 0 \<and> 0 \<le> target_delta_max wide_delta_config"
    by (simp add: wide_delta_config_def default_config_def)
  moreover have "\<not> delta_filter wide_delta_config example_env call_bad_delta"
    by (simp add: delta_filter_def dict_get_def call_bad_delta_def example_env_def)
  moreover have
    "eligible_contracts wide_delta_config example_env None ''call'' [call_bad_delta] = Inr []"
    by (simp add: check_call_bad_delta_wide)
  moreover have
    "eligible_contracts wide_delta_config example_env None ''call'' [call_no_delta]
       = Inr [call_no_delta(''dte'' \<mapsto> PyNum 40)]"
    by (simp add: check_call_no_delta_wide)
  ultimately show ?thesis by (intro conjI) simp_all
qed

text \<open>
  C5, amended. In the delta stage a contract without a \<^verbatim>\<open>'delta'\<close> key is read as delta
  0.0 and passes exactly when 0.0 lies within the delta band; a contract whose delta is
  there and on which \<^verbatim>\<open>float\<close> raises (a non-numeric string, \<^verbatim>\<open>None\<close>) is rejected whatever
  the band, so also with the band [0.30, 0.50].
\<close>

theorem delta_filter_missing_or_malformed:
  "(c ''delta'' = None \<longrightarrow>
      delta_filter cfg env c = (target_delta_min cfg \<le> 0 \<and> 0 \<le> target_delta_max cfg))
   \<and> (c ''delta'' = Some v \<and> isl (py_float env v) \<longrightarrow> \<not> delta_filter cfg env c)"
  by (auto simp: delta_filter_def dict_get_def isl_def split: sum.splits)

theorem delta_filter_missing_or_malformed_witness:
  "call_no_delta ''delta'' = None
   \<and> delta_filter wide_delta_config example_env call_no_delta
   \<and> \<not> delta_filter default_config example_env call_no_delta
   \<and> call_bad_delta ''delta'' = Some (PyStr ''abc'') \<and> isl (py_float example_env (PyStr ''abc''))
   \<and> \<not> delta_filter default_config example_env call_bad_delta"
proof -
  have h1: "call_no_delta ''delta'' = None" by (simp add: call_no_delta_def)
  have h2: "call_bad_delta ''delta'' = Some (PyStr ''abc'')" by (simp add: call_bad_delta_def)
  have h3: "isl (py_float example_env (PyStr ''abc''))" by (simp add: example_env_def)
  have "delta_filter wide_delta_config example_env call_no_delta"
    using delta_filter_missing_or_malformed
      [where c = call_no_delta and cfg = wide_delta_config and env = example_env] h1
    by (simp add: wide_delta_config_def default_config_def)
  moreover have "\<not> delta_filter default_config example_env call_no_delta"
    using delta_filter_missing_or_malformed
      [where c = call_no_delta and cfg = default_config and env = example_env] h1
    by (simp add: default_config_def)
  moreover have "\<not> delta_filter default_config example_env call_bad_delta"
    using delta_filter_missing_or_malformed
      [where c = call_bad_delta and cfg = default_config and env = example_env
         and v = "PyStr ''abc''"] h2 h3
    by blast
  ultimately show ?thesis using h1 h2 h3 by (intro conjI)
qed

text \<open>
  C6. On a signals frame with at least one row, \<^verbatim>\<open>define_orders\<close> returns the empty list,
  raising nothing, when the options chain is missing or empty, when the underlying price
  is absent, or when the latest positions value is zero. And a contract that has a type and
  a well-formed expiration date and on whose delta, implied volatility or IV percentile
  \<^verbatim>\<open>float\<close> raises is skipped: the call on a chain that holds it returns (or raises) what
  the call on the chain without it does.
\<close>

theorem define_orders_no_decision_no_abort:
  assumes "signals \<noteq> []"
  shows "(options_chain = None \<or> options_chain = Some [] \<or> underlying_price = None
          \<or> last signals = 0
        \<longrightarrow> define_orders cfg env signals bal options_chain underlying_price hv = Inr [])
    \<and> (c ''type'' \<noteq> None \<and> dte_of env c \<noteq> None \<and> coercion_failure cfg env c \<longrightarrow>
          define_orders cfg env signals bal (Some (xs @ c # ys)) underlying_price hv
            = define_orders cfg env signals bal (Some (xs @ ys)) underlying_price hv)"
proof (intro conjI impI)
  assume "options_chain = None \<or> options_chain = Some [] \<or> underlying_price = None
          \<or> last signals = 0"
  then show "define_orders cfg env signals bal options_chain underlying_price hv = Inr []"
    by (rule define_orders_no_decision [OF assms])
next
  assume c: "c ''type'' \<noteq> None \<and> dte_of env c \<noteq> None \<and> coercion_failure cfg env c"
  let ?d = "if last signals > 0 then ''call'' else ''put''"
  have skip: "check_contract cfg env hv ?d c = Inr None"
    using c by (simp add: check_contract_coercion_failure)
  have eq: "eligible_contracts cfg env hv ?d (xs @ c # ys)
     = eligible_contracts cfg env hv ?d (xs @ ys)"
    by (rule eligible_contracts_skip [OF skip])
  show "define_orders cfg env signals bal (Some (xs @ c # ys)) underlying_price hv
            = define_orders cfg env signals bal (Some (xs @ ys)) underlying_price hv"
  proof (cases "underlying_price = None \<or> last signals = 0")
    case True
    then show ?thesis
      using define_orders_no_decision [OF assms, of _ underlying_price] by simp
  next
    case False
    then obtain p where p: "underlying_price = Some p" and nz: "last signals \<noteq> 0" by auto
    have lhs: "define_orders cfg env signals bal (Some (xs @ c # ys)) (Some p) hv =
       (case eligible_contracts cfg env hv ?d (xs @ ys) of
          Inl e \<Rightarrow> Inl e
        | Inr es \<Rightarrow>
            if es = [] then Inr []
            else (case select_contract cfg env es of
                    Inl e \<Rightarrow> Inl e
                  | Inr sel \<Rightarrow> size_order cfg bal ?d sel))"
      using define_orders_unfold [OF assms nz, of "xs @ c # ys" cfg env bal p hv]
      by (simp only: eq) simp
    show ?thesis
    proof (cases "xs @ ys = []")
      case True
      then show ?thesis
        unfolding p lhs using define_orders_no_decision [OF assms, of "Some []" "Some p"]
        by simp
    next
      case False
      from define_orders_unfold [OF assms nz False, of cfg env bal p hv] lhs
      show ?thesis unfolding p by simp
    qed
  qed
qed

theorem define_orders_no_decision_no_abort_witness:
  "[1 :: real] \<noteq> []
   \<and> define_orders default_config example_env [1] 10000 None (Some 100) None = Inr []
   \<and> call_bad_delta ''type'' \<noteq> None \<and> dte_of example_env call_bad_delta \<noteq> None
   \<and> coercion_failure default_config example_env call_bad_delta
   \<and> define_orders default_config example_env [1] 10000
         (Some ([call_a] @ call_bad_delta # [])) (Some 100) None
       = define_orders default_config example_env [1] 10000 (Some ([call_a] @ [])) (Some 100) None"
proof -
  have h: "[1 :: real] \<noteq> []" by simp
  have c1: "call_bad_delta ''type'' \<noteq> None" by (simp add: call_bad_delta_def)
  have c2: "dte_of example_env call_bad_delta \<noteq> None"
    by (simp add: dte_of_def calculate_dte_def example_env_def call_bad_delta_def)
  have c3: "coercion_failure default_config example_env call_bad_delta"
    by (simp add: coercion_failure_def dict_get_def call_bad_delta_def example_env_def)
  note t1 = define_orders_no_decision_no_abort
    [OF h, where options_chain = None and underlying_price = "Some 100"
       and cfg = default_config and env = example_env and bal = 10000 and hv = None]
  note t2 = define_orders_no_decision_no_abort
    [OF h, where c = call_bad_delta and xs = "[call_a]" and ys = "[]"
       and underlying_price = "Some 100"
       and cfg = default_config and env = example_env and bal = 10000 and hv = None]
  have "define_orders default_config example_env [1] 10000 None (Some 100) None = Inr []"
    using t1 by simp
  moreover have "define_orders default_config example_env [1] 10000
         (Some ([call_a] @ call_bad_delta # [])) (Some 100) None
       = define_orders default_config example_env [1] 10000 (Some ([call_a] @ [])) (Some 100) None"
    using t2 c1 c2 c3 by blast
  ultimately show ?thesis using h c1 c2 c3 by (intro conjI)
qed

section \<open>The crossover strategy: the claims\<close>

text \<open>
  C7. An initialized strategy takes a positive tick; the buffer with the tick appended
  holds both windows, so both means are recomputed (\<open>ns\<close>, \<open>nl\<close>) and stored, the
  previous ones being \<open>ps\<close> and \<open>pl\<close>. On an upward cross the call returns BUY and sets
  the position to 1 exactly when the position was at most 0, and otherwise returns HOLD and
  leaves the position; on a downward cross it returns SELL and sets the position to -1
  exactly when the position was at least 0, and otherwise returns HOLD and leaves the
  position; without a cross it returns HOLD and leaves the position.
\<close>

theorem on_new_tick_crossover:
  assumes init: "data_initialized s" and pos: "0 < p"
    and prev: "short_ma s = Some ps" "long_ma s = Some pl"
    and buf: "buf = deque_append (long_window s + 5) (prices s) (Fin p)"
    and len: "short_window s \<le> length buf" "long_window s \<le> length buf"
    and ns: "fl_div (fl_sum (py_tail (short_window s) buf)) (short_window s) = Inr ns"
    and nl: "fl_div (fl_sum (py_tail (long_window s) buf)) (long_window s) = Inr nl"
    and res: "on_new_tick s p = (r, s')"
  shows "short_ma s' = Some ns \<and> long_ma s' = Some nl
    \<and> (fl_le ps pl \<and> fl_less nl ns \<longrightarrow>
         (if position s \<le> 0 then r = Inr BUY \<and> position s' = 1
          else r = Inr HOLD \<and> position s' = position s))
    \<and> (fl_le pl ps \<and> fl_less ns nl \<longrightarrow>
         (if position s \<ge> 0 then r = Inr SELL \<and> position s' = - 1
          else r = Inr HOLD \<and> position s' = position s))
    \<and> (\<not> (fl_le ps pl \<and> fl_less nl ns) \<and> \<not> (fl_le pl ps \<and> fl_less ns nl) \<longrightarrow>
         r = Inr HOLD \<and> position s' = position s)"
proof -
  have lt: "\<not> (fl_less nl ns \<and> fl_less ns nl)"
    by (auto simp: fl_less_def split: pyfloat.splits)
  have "on_new_tick s p =
      crossover ps pl ns nl (s\<lparr>prices := buf, short_ma := Some ns, long_ma := Some nl\<rparr>)"
    using init pos prev len ns nl unfolding buf
    by (simp add: on_new_tick_def Let_def)
  with res have "(r, s') =
      crossover ps pl ns nl (s\<lparr>prices := buf, short_ma := Some ns, long_ma := Some nl\<rparr>)"
    by simp
  then show ?thesis using lt
    by (auto simp: crossover_def split: if_splits)
qed

theorem on_new_tick_crossover_witness:
  "data_initialized fresh_strategy \<and> (0 :: real) < 2
   \<and> short_ma fresh_strategy = Some (Fin 1) \<and> long_ma fresh_strategy = Some (Fin 1)
   \<and> [Fin 1, Fin 1, Fin 2]
       = deque_append (long_window fresh_strategy + 5) (prices fresh_strategy) (Fin 2)
   \<and> short_window fresh_strategy \<le> length [Fin 1, Fin 1, Fin 2]
   \<and> long_window fresh_strategy \<le> length [Fin 1, Fin 1, Fin 2]
   \<and> fl_div (fl_sum (py_tail (short_window fresh_strategy) [Fin 1, Fin 1, Fin 2]))
         (short_window fresh_strategy) = Inr (Fin 2)
   \<and> fl_div (fl_sum (py_tail (long_window fresh_strategy) [Fin 1, Fin 1, Fin 2]))
         (long_window fresh_strategy) = Inr (Fin (3 / 2))
   \<and> fst (on_new_tick fresh_strategy 2) = Inr BUY
   \<and> position (snd (on_new_tick fresh_strategy 2)) = 1"
proof -
  have h1: "data_initialized fresh_strategy" by (simp add: fresh_strategy_eq)
  have h2: "(0 :: real) < 2" by simp
  have h3: "short_ma fresh_strategy = Some (Fin 1)" by (simp add: fresh_strategy_eq)
  have h4: "long_ma fresh_strategy = Some (Fin 1)" by (simp add: fresh_strategy_eq)
  have h5: "[Fin 1, Fin 1, Fin 2]
       = deque_append (long_window fresh_strategy + 5) (prices fresh_strategy) (Fin 2)"
    by (simp add: fresh_strategy_eq deque_append_def)
  have h6: "short_window fresh_strategy \<le> length [Fin 1, Fin 1, Fin 2]"
    by (simp add: fresh_strategy_eq)
  have h7: "long_window fresh_strategy \<le> length [Fin 1, Fin 1, Fin 2]"
    by (simp add: fresh_strategy_eq)
  have h8: "fl_div (fl_sum (py_tail (short_window fresh_strategy) [Fin 1, Fin 1, Fin 2]))
         (short_window fresh_strategy) = Inr (Fin 2)"
    by (simp add: fresh_strategy_eq py_tail_def fl_sum_def fl_div_def)
  have h9: "fl_div (fl_sum (py_tail (long_window fresh_strategy) [Fin 1, Fin 1, Fin 2]))
         (long_window fresh_strategy) = Inr (Fin (3 / 2))"
    by (simp add: fresh_strategy_eq py_tail_def fl_sum_def fl_div_def)
  have h10: "on_new_tick fresh_strategy 2
       = (fst (on_new_tick fresh_strategy 2), snd (on_new_tick fresh_strategy 2))"
    by simp
  have p0: "position fresh_strategy = 0" by (simp add: fresh_strategy_eq)
  from on_new_tick_crossover [OF h1 h2 h3 h4 h5 h6 h7 h8 h9 h10]
  have "fst (on_new_tick fresh_strategy 2) = Inr BUY
      \<and> position (snd (on_new_tick fresh_strategy 2)) = 1"
    by (simp add: p0 fl_le_def fl_less_def)
  then show ?thesis
    by (intro conjI h1 h2 h3 h4 h5 h6 h7 h8 h9) simp_all
qed

text \<open>
  C8 (the code departs from the claim). \<^verbatim>\<open>MovingAverageCrossoverStrategy(1, 2, "EUR.USD")\<close>
  is initialized with two bars closing at 1.0: the call returns \<^verbatim>\<open>True\<close> and stores both
  means, 1.0 and 1.0. So on the first tick, 2.0, the previous means are not \<^verbatim>\<open>None\<close>, the
  branch that holds on the first update is not taken, the means become 2.0 and 1.5, and the
  call returns BUY and sets the position to 1.
\<close>

theorem first_tick_after_initialization_buys:
  "initialize_with_historical_data no_sort (strategy_init 1 2 ''EUR.USD'')
       [flat_bar 1, flat_bar 1] = (True, fresh_strategy)
   \<and> short_ma fresh_strategy = Some (Fin 1) \<and> long_ma fresh_strategy = Some (Fin 1)
   \<and> fst (on_new_tick fresh_strategy 2) = Inr BUY
   \<and> position (snd (on_new_tick fresh_strategy 2)) = 1"
proof -
  have "initialize_with_historical_data no_sort (strategy_init 1 2 ''EUR.USD'')
       [flat_bar 1, flat_bar 1] = (True, fresh_strategy)"
    unfolding fresh_strategy_eq
    by (simp add: initialize_with_historical_data_def strategy_init_def
        flat_bar_def no_sort_def close_column_def rolling_mean_last_def fl_sum_def
        deque_append_def Let_def)
  moreover have "fst (on_new_tick fresh_strategy 2) = Inr BUY
      \<and> position (snd (on_new_tick fresh_strategy 2)) = 1"
    by (simp add: fresh_strategy_eq on_new_tick_def deque_append_def py_tail_def fl_sum_def
        fl_div_def crossover_def fl_le_def fl_less_def Let_def)
  ultimately show ?thesis by (simp add: fresh_strategy_eq)
qed

text \<open>
  C9. A strategy that is not initialized is handed fewer bars than \<open>long_window\<close>:
  \<^verbatim>\<open>initialize_with_historical_data\<close> returns \<^verbatim>\<open>False\<close> and changes nothing, so the strategy
  is still not initialized, and every later run of ticks returns HOLD for each tick and
  leaves the object (price buffer, means and position included) as it was.
\<close>

theorem short_history_stays_uninitialized:
  assumes "length bars < long_window s" and "\<not> data_initialized s"
  shows "initialize_with_historical_data sbd s bars = (False, s)
     \<and> \<not> data_initialized (snd (initialize_with_historical_data sbd s bars))
     \<and> feed_ticks (snd (initialize_with_historical_data sbd s bars)) ticks
         = (map (\<lambda>p. Inr HOLD) ticks, s)"
proof -
  have a: "initialize_with_historical_data sbd s bars = (False, s)"
    using assms(1) by (simp add: initialize_with_historical_data_def)
  have b: "feed_ticks s ticks = (map (\<lambda>p. Inr HOLD) ticks, s)"
    using assms(2) by (induction ticks) (simp_all add: on_new_tick_def)
  show ?thesis using a b assms(2) by simp
qed

theorem short_history_stays_uninitialized_witness:
  "length [flat_bar 1, flat_bar 2, flat_bar 3, flat_bar 4, flat_bar 5]
     < long_window (strategy_init 5 10 ''EUR.USD'')
   \<and> \<not> data_initialized (strategy_init 5 10 ''EUR.USD'')
   \<and> initialize_with_historical_data no_sort (strategy_init 5 10 ''EUR.USD'')
         [flat_bar 1, flat_bar 2, flat_bar 3, flat_bar 4, flat_bar 5]
       = (False, strategy_init 5 10 ''EUR.USD'')
   \<and> feed_ticks (snd (initialize_with_historical_data no_sort (strategy_init 5 10 ''EUR.USD'')
         [flat_bar 1, flat_bar 2, flat_bar 3, flat_bar 4, flat_bar 5])) [6, 7]
       = (map (\<lambda>p :: real. Inr HOLD) [6, 7], strategy_init 5 10 ''EUR.USD'')"
proof -
  have h1: "length [flat_bar 1, flat_bar 2, flat_bar 3, flat_bar 4, flat_bar 5]
     < long_window (strategy_init 5 10 ''EUR.USD'')"
    by (simp add: strategy_init_def)
  have h2: "\<not> data_initialized (strategy_init 5 10 ''EUR.USD'')"
    by (simp add: strategy_init_def)
  note t = short_history_stays_uninitialized [OF h1 h2, of no_sort "[6, 7]"]
  show ?thesis
    by (intro conjI h1 h2 conjunct1 [OF t] conjunct2 [OF conjunct2 [OF t]])
qed

text \<open>
  C10 as claimed fails: \<^verbatim>\<open>update_position\<close> stores whatever integer it is handed, so
  \<^verbatim>\<open>update_position(2)\<close> on a new strategy leaves the position 2.
\<close>

theorem update_position_leaves_range:
  "reachable UNIV (update_position (strategy_init 5 10 ''EUR.USD'') 2)
   \<and> position (update_position (strategy_init 5 10 ''EUR.USD'') 2) \<notin> {- 1, 0, 1}"
proof -
  have "reachable UNIV (update_position (strategy_init 5 10 ''EUR.USD'') 2)"
    by (rule reachable.position_set [OF reachable.constructed]) simp
  then show ?thesis
    by (simp add: update_position_def strategy_init_def)
qed

text \<open>
  C10, amended. In every state reached by the constructor, by initializations, by ticks and
  by calls of \<^verbatim>\<open>update_position\<close> whose argument is -1, 0 or 1, the position is -1, 0
  or 1.
\<close>

theorem position_in_range_checked_setter: "reachable {- 1, 0, 1} s \<Longrightarrow> position s \<in> {- 1, 0, 1}"
proof (induction rule: reachable.induct)
  case (constructed sw lw pair)
  show ?case by (simp add: strategy_init_def)
next
  case (initialized s sbd bars)
  then show ?case by (simp add: initialize_position)
next
  case (ticked s p)
  then show ?case using on_new_tick_position [of s p] by auto
next
  case (position_set s v)
  then show ?case by (simp add: update_position_def)
qed

theorem position_in_range_checked_setter_witness:
  "reachable {- 1, 0, 1} (update_position (snd (on_new_tick fresh_strategy 2)) (- 1))
   \<and> position (update_position (snd (on_new_tick fresh_strategy 2)) (- 1)) \<in> {- 1, 0, 1}"
proof -
  have r: "reachable {- 1, 0, 1} (update_position (snd (on_new_tick fresh_strategy 2)) (- 1))"
    unfolding fresh_strategy_def
    by (intro reachable.position_set reachable.ticked reachable.initialized
        reachable.constructed) simp
  from position_in_range_checked_setter [OF r] r show ?thesis by simp
qed

end
